theory Spec2Isabelle
  imports Main
begin

section \<open>The hello-world service over a MySQL table\<close>

text \<open>
  The program (\<^verbatim>\<open>src/main.py\<close>) is a request handler around three database
  operations. Everything it does goes through the process environment, the MySQL
  driver and one file; these are modelled as an explicit \<open>world\<close> that every
  function takes and returns. A Python exception is a value of type \<open>exn\<close> and a
  function that may raise returns \<open>exn + 'a\<close> (\<open>Inl\<close> is the raise). Writing to the
  log and to standard output is taken to succeed and is left out.
\<close>

subsection \<open>Exceptions\<close>

text \<open>
  The handlers of the source tell two classes apart: \<^verbatim>\<open>mysql.connector.Error\<close> and
  any other \<^verbatim>\<open>Exception\<close>. The string is the message the exception was built with.
  \<open>str_exn\<close> is \<^verbatim>\<open>str(e)\<close>: the driver's \<^verbatim>\<open>Error\<close> class replaces a missing message
  by \<^verbatim>\<open>Unknown error\<close>, so its text is never empty; the text of another exception is
  its message, which may be empty (\<^verbatim>\<open>str(MemoryError())\<close> is the empty string).
\<close>

datatype exn = Error string | Exception string

definition str_exn :: "exn \<Rightarrow> string" where
  "str_exn e = (case e of
      Error m \<Rightarrow> (if m = [] then ''Unknown error'' else m)
    | Exception m \<Rightarrow> m)"

subsection \<open>Python built-ins used by the source\<close>

text \<open>
  A \<open>string\<close> stands for a Python \<^verbatim>\<open>str\<close> whose code points are below 256, one
  \<open>char\<close> for each code point; strings with other code points are outside the model.
\<close>

definition getenv :: "(string \<Rightarrow> string option) \<Rightarrow> string \<Rightarrow> string \<Rightarrow> string" where
  "getenv e k d = (case e k of None \<Rightarrow> d | Some v \<Rightarrow> v)"

text \<open>
  Whitespace for \<^verbatim>\<open>str.strip\<close>, and the smaller set that \<^verbatim>\<open>int\<close> skips around a number
  (it does not skip the separators \<^verbatim>\<open>0x1C\<close> to \<^verbatim>\<open>0x1F\<close>).
\<close>

definition is_space :: "char \<Rightarrow> bool" where
  "is_space c = (c \<in> set [CHR 0x09, CHR 0x0A, CHR 0x0B, CHR 0x0C, CHR 0x0D,
                           CHR 0x1C, CHR 0x1D, CHR 0x1E, CHR 0x1F, CHR 0x20, CHR 0x85, CHR 0xA0])"

definition is_int_space :: "char \<Rightarrow> bool" where
  "is_int_space c = (c \<in> set [CHR 0x09, CHR 0x0A, CHR 0x0B, CHR 0x0C, CHR 0x0D,
                               CHR 0x20, CHR 0x85, CHR 0xA0])"

definition strip_with :: "(char \<Rightarrow> bool) \<Rightarrow> string \<Rightarrow> string" where
  "strip_with sp s = rev (dropWhile sp (rev (dropWhile sp s)))"

definition py_strip :: "string \<Rightarrow> string" where
  "py_strip s = strip_with is_space s"

definition is_digit :: "char \<Rightarrow> bool" where
  "is_digit c = (c \<in> set ''0123456789'')"

definition digit_val :: "char \<Rightarrow> int" where
  "digit_val c = int (of_char c) - 48"

text \<open>
  The digits of a decimal literal: digits, with single underscores allowed between two
  digits only.
\<close>

fun digits_ok :: "string \<Rightarrow> bool" where
  "digits_ok [] = False"
| "digits_ok [c] = is_digit c"
| "digits_ok (c # d # cs) =
     (if is_digit c then (if d = CHR ''_'' then digits_ok cs else digits_ok (d # cs))
      else False)"

text \<open>
  \<^verbatim>\<open>repr(s)\<close>: double quotes when the string has a single quote and no double quote,
  single quotes otherwise; the quote and the backslash are escaped, and so is every
  character that is not printable.
\<close>

definition hex_digit :: "nat \<Rightarrow> char" where
  "hex_digit n = ''0123456789abcdef'' ! (n mod 16)"

definition repr_char :: "char \<Rightarrow> char \<Rightarrow> string" where
  "repr_char q c =
     (let n = (of_char c :: nat) in
      if c = q \<or> c = CHR 0x5C then [CHR 0x5C, c]
      else if c = CHR 0x09 then [CHR 0x5C, CHR ''t'']
      else if c = CHR 0x0A then [CHR 0x5C, CHR ''n'']
      else if c = CHR 0x0D then [CHR 0x5C, CHR ''r'']
      else if n < 0x20 \<or> n = 0x7F \<or> (0x80 \<le> n \<and> n \<le> 0xA0) \<or> n = 0xAD
           then [CHR 0x5C, CHR ''x'', hex_digit (n div 16), hex_digit n]
      else [c])"

definition py_repr :: "string \<Rightarrow> string" where
  "py_repr s =
     (let q = (if CHR 0x27 \<in> set s \<and> CHR 0x22 \<notin> set s then CHR 0x22 else CHR 0x27)
      in [q] @ concat (map (repr_char q) s) @ [q])"

text \<open>
  \<^verbatim>\<open>int(s)\<close> for a string: surrounding whitespace and one sign are accepted; anything
  else raises \<^verbatim>\<open>ValueError\<close>, whose message ends with the first 200 characters of
  \<^verbatim>\<open>repr(s)\<close>. The interpreter's limit on the number of digits is a setting of the
  process and is taken to be off.
\<close>

definition py_int :: "string \<Rightarrow> exn + int" where
  "py_int s =
     (let t = strip_with is_int_space s;
          neg = (case t of c # _ \<Rightarrow> c = CHR ''-'' | [] \<Rightarrow> False);
          d = (case t of c # r \<Rightarrow> (if c = CHR ''-'' \<or> c = CHR ''+'' then r else t) | [] \<Rightarrow> t)
      in if digits_ok d
         then (let n = foldl (\<lambda>a c. 10 * a + digit_val c) 0 (filter (\<lambda>c. c \<noteq> CHR ''_'') d)
               in Inr (if neg then - n else n))
         else Inl (Exception (''invalid literal for int() with base 10: '' @ take 200 (py_repr s))))"

text \<open>Truth value of an optional string (\<^verbatim>\<open>if x:\<close> with \<open>x\<close> a \<^verbatim>\<open>str\<close> or \<^verbatim>\<open>None\<close>).\<close>

definition truthy :: "string option \<Rightarrow> bool" where
  "truthy x = (case x of None \<Rightarrow> False | Some s \<Rightarrow> s \<noteq> [])"

subsection \<open>The world: environment, database server, driver, file system\<close>

text \<open>
  The code passes three statements to \<^verbatim>\<open>execute\<close>, named here by a datatype:
  \<^item> \<open>CREATE_TABLE\<close>: \<^verbatim>\<open>CREATE TABLE IF NOT EXISTS random_facts (...)\<close>;
  \<^item> \<open>SELECT_COUNT\<close>: \<^verbatim>\<open>SELECT COUNT(*) FROM random_facts\<close>;
  \<^item> \<open>SELECT_RANDOM\<close>: \<^verbatim>\<open>SELECT fact FROM random_facts ORDER BY RAND() LIMIT 1\<close>.

  The fourth, \<^verbatim>\<open>INSERT INTO random_facts (fact) VALUES (%s)\<close>, is only passed to
  \<^verbatim>\<open>executemany\<close>, with the list of rows to insert.
\<close>

datatype stmt = CREATE_TABLE | SELECT_COUNT | SELECT_RANDOM

datatype val = IntV int | StrV string

type_synonym row = "val list"

record conn_params =
  host :: string
  port :: int
  database :: string
  user :: string
  password :: string
  connection_timeout :: nat
  autocommit :: bool
  raise_on_warnings :: bool

text \<open>Every call made to the driver is recorded, whether it raises or not.\<close>

datatype event =
    Connect conn_params
  | Cursor nat
  | Execute nat stmt
  | ExecuteMany nat "string list"
  | FetchOne nat
  | Commit nat
  | Rollback nat
  | CursorClose nat
  | ConnClose nat

datatype vfile = Readable string | Unreadable

text \<open>
  \<^item> \<open>table\<close>: the committed rows of \<^verbatim>\<open>random_facts\<close> (their \<^verbatim>\<open>fact\<close> column, in
    insertion order; the code never reads \<^verbatim>\<open>id\<close> or \<^verbatim>\<open>created_at\<close>), \<open>None\<close> while the
    table does not exist;
  \<^item> \<open>pending\<close>: per connection, the rows inserted and not yet committed (connections
    are opened with \<^verbatim>\<open>autocommit=False\<close>);
  \<^item> \<open>results\<close>: per cursor, the rows of the last statement not yet fetched (the code
    opens one cursor per connection, so a cursor carries its connection's number);
  \<^item> \<open>plan\<close>: what the next driver calls do, in order: \<open>Some e\<close> makes the call raise
    \<open>e\<close> with no effect on the server, \<open>None\<close> lets it run; an empty plan lets every
    call run. A theorem for every world holds for every pattern of failures;
  \<^item> \<open>rand\<close>: the choice \<^verbatim>\<open>ORDER BY RAND()\<close> makes;
  \<^item> \<open>app_dir\<close>, \<open>files\<close>: \<^verbatim>\<open>os.path.dirname(__file__)\<close> and the files that exist.
\<close>

record world =
  env :: "string \<Rightarrow> string option"
  table :: "string list option"
  pending :: "nat \<Rightarrow> string list"
  results :: "nat \<Rightarrow> row list"
  next_id :: nat
  plan :: "exn option list"
  rand :: nat
  trace :: "event list"
  app_dir :: string
  files :: "string \<Rightarrow> vfile option"

definition log_call :: "event \<Rightarrow> world \<Rightarrow> world" where
  "log_call ev w = w\<lparr>trace := trace w @ [ev]\<rparr>"

definition fault :: "world \<Rightarrow> exn option \<times> world" where
  "fault w = (case plan w of [] \<Rightarrow> (None, w) | f # fs \<Rightarrow> (f, w\<lparr>plan := fs\<rparr>))"

text \<open>
  A driver call: record it, then either raise what the plan says or run the effect.
  Every call to the driver goes through it, also \<^verbatim>\<open>rollback()\<close> and the two
  \<^verbatim>\<open>close()\<close> calls.
\<close>

definition driver_call :: "event \<Rightarrow> (world \<Rightarrow> (exn + 'a) \<times> world) \<Rightarrow> world \<Rightarrow> (exn + 'a) \<times> world" where
  "driver_call ev eff w =
     (case fault (log_call ev w) of
        (Some e, w1) \<Rightarrow> (Inl e, w1)
      | (None, w1) \<Rightarrow> eff w1)"

definition connect :: "conn_params \<Rightarrow> world \<Rightarrow> (exn + nat) \<times> world" where
  "connect p = driver_call (Connect p)
     (\<lambda>w. (Inr (next_id w),
            w\<lparr>next_id := Suc (next_id w),
              pending := (pending w)(next_id w := []),
              results := (results w)(next_id w := [])\<rparr>))"

definition cursor :: "nat \<Rightarrow> world \<Rightarrow> (exn + nat) \<times> world" where
  "cursor c = driver_call (Cursor c) (\<lambda>w. (Inr c, w))"

text \<open>The rows a connection sees: the committed ones and its own uncommitted ones.\<close>

definition visible :: "nat \<Rightarrow> world \<Rightarrow> string list option" where
  "visible c w = map_option (\<lambda>rows. rows @ pending w c) (table w)"

text \<open>
  The database error of a statement on a table that does not exist (a
  \<^verbatim>\<open>ProgrammingError\<close>; its text is abbreviated).
\<close>

definition no_table :: exn where
  "no_table = Error ''1146 (42S02): Table random_facts does not exist''"

definition run_stmt :: "nat \<Rightarrow> stmt \<Rightarrow> world \<Rightarrow> (exn + unit) \<times> world" where
  "run_stmt c s w =
     (case s of
        CREATE_TABLE \<Rightarrow>
          (Inr (), w\<lparr>table := Some (case table w of None \<Rightarrow> [] | Some rows \<Rightarrow> rows),
                     results := (results w)(c := [])\<rparr>)
      | SELECT_COUNT \<Rightarrow>
          (case visible c w of
             None \<Rightarrow> (Inl no_table, w)
           | Some rows \<Rightarrow> (Inr (), w\<lparr>results := (results w)(c := [[IntV (int (length rows))]])\<rparr>))
      | SELECT_RANDOM \<Rightarrow>
          (case visible c w of
             None \<Rightarrow> (Inl no_table, w)
           | Some rows \<Rightarrow>
               (Inr (), w\<lparr>results := (results w)(c :=
                   (if rows = [] then [] else [[StrV (rows ! (rand w mod length rows))]]))\<rparr>)))"

definition execute :: "nat \<Rightarrow> stmt \<Rightarrow> world \<Rightarrow> (exn + unit) \<times> world" where
  "execute c s = driver_call (Execute c s) (run_stmt c s)"

text \<open>
  \<^verbatim>\<open>executemany\<close> with the insert statement: the driver sends one multi-row insert,
  and the rows stay pending until the connection commits.
\<close>

definition executemany :: "nat \<Rightarrow> string list \<Rightarrow> world \<Rightarrow> (exn + unit) \<times> world" where
  "executemany c params = driver_call (ExecuteMany c params)
     (\<lambda>w. case table w of
             None \<Rightarrow> (Inl no_table, w)
           | Some _ \<Rightarrow> (Inr (), w\<lparr>pending := (pending w)(c := pending w c @ params)\<rparr>))"

definition fetchone :: "nat \<Rightarrow> world \<Rightarrow> (exn + row option) \<times> world" where
  "fetchone c = driver_call (FetchOne c)
     (\<lambda>w. case results w c of
             [] \<Rightarrow> (Inr None, w)
           | r # rs \<Rightarrow> (Inr (Some r), w\<lparr>results := (results w)(c := rs)\<rparr>))"

definition commit :: "nat \<Rightarrow> world \<Rightarrow> (exn + unit) \<times> world" where
  "commit c = driver_call (Commit c)
     (\<lambda>w. (Inr (), w\<lparr>table := visible c w, pending := (pending w)(c := [])\<rparr>))"

definition rollback :: "nat \<Rightarrow> world \<Rightarrow> (exn + unit) \<times> world" where
  "rollback c = driver_call (Rollback c)
     (\<lambda>w. (Inr (), w\<lparr>pending := (pending w)(c := [])\<rparr>))"

definition cursor_close :: "nat \<Rightarrow> world \<Rightarrow> (exn + unit) \<times> world" where
  "cursor_close c = driver_call (CursorClose c)
     (\<lambda>w. (Inr (), w\<lparr>results := (results w)(c := [])\<rparr>))"

definition conn_close :: "nat \<Rightarrow> world \<Rightarrow> (exn + unit) \<times> world" where
  "conn_close c = driver_call (ConnClose c)
     (\<lambda>w. (Inr (), w\<lparr>pending := (pending w)(c := [])\<rparr>))"

subsection \<open>\<^verbatim>\<open>get_db_connection\<close>\<close>

definition db_params :: "(string \<Rightarrow> string option) \<Rightarrow> int \<Rightarrow> conn_params" where
  "db_params e p =
     \<lparr>host = getenv e ''DB_HOST'' ''localhost'',
      port = p,
      database = getenv e ''DB_NAME'' ''hello_world'',
      user = getenv e ''DB_USER'' ''root'',
      password = getenv e ''DB_PASSWORD'' ''root'',
      connection_timeout = 10,
      autocommit = False,
      raise_on_warnings = False\<rparr>"

text \<open>
  Both handlers of the source re-raise what they caught, so the function raises exactly
  what \<^verbatim>\<open>int(db_port)\<close> or \<^verbatim>\<open>mysql.connector.connect\<close> raised.
\<close>

definition get_db_connection :: "world \<Rightarrow> (exn + nat) \<times> world" where
  "get_db_connection w =
     (let db_port = getenv (env w) ''DB_PORT'' ''3306'';
          r = (case py_int db_port of
                 Inl e \<Rightarrow> (Inl e, w)
               | Inr p \<Rightarrow> connect (db_params (env w) p) w)
      in case r of
           (Inr conn, w1) \<Rightarrow> (Inr conn, w1)
         | (Inl (Error m), w1) \<Rightarrow> (Inl (Error m), w1)
         | (Inl (Exception m), w1) \<Rightarrow> (Inl (Exception m), w1))"

subsection \<open>Local variables, \<^verbatim>\<open>except\<close> and \<^verbatim>\<open>finally\<close>\<close>

text \<open>
  The \<^verbatim>\<open>except\<close> and \<^verbatim>\<open>finally\<close> blocks ask whether \<^verbatim>\<open>conn\<close> and \<^verbatim>\<open>cursor\<close> were
  bound when the body stopped (\<^verbatim>\<open>'conn' in locals()\<close>, or \<^verbatim>\<open>if conn:\<close> after
  \<^verbatim>\<open>conn = None\<close>; a connection object is always true). A \<^verbatim>\<open>try\<close> body therefore
  returns, with its outcome, the variables it had bound.
\<close>

record locals =
  conn_var :: "nat option"
  cursor_var :: "nat option"

text \<open>
  The \<^verbatim>\<open>finally\<close> block of the three functions: close the cursor if bound, then the
  connection if bound. Nothing guards the two calls: if \<^verbatim>\<open>cursor.close()\<close> raises,
  \<^verbatim>\<open>conn.close()\<close> is not reached.
\<close>

definition close_all :: "locals \<Rightarrow> world \<Rightarrow> (exn + unit) \<times> world" where
  "close_all l w =
     (case (case cursor_var l of Some cur \<Rightarrow> cursor_close cur w | None \<Rightarrow> (Inr (), w)) of
        (Inl e, w1) \<Rightarrow> (Inl e, w1)
      | (Inr _, w1) \<Rightarrow> (case conn_var l of Some c \<Rightarrow> conn_close c w1 | None \<Rightarrow> (Inr (), w1)))"

text \<open>
  What Python does with a \<^verbatim>\<open>finally\<close> block: it runs after the body and its handlers,
  whatever their outcome \<open>r\<close>; if it raises, its exception replaces that outcome.
\<close>

definition finally_close :: "locals \<Rightarrow> (exn + 'a) \<times> world \<Rightarrow> (exn + 'a) \<times> world" where
  "finally_close l rw =
     (case rw of (r, w) \<Rightarrow>
        (case close_all l w of
           (Inl e, w1) \<Rightarrow> (Inl e, w1)
         | (Inr _, w1) \<Rightarrow> (r, w1)))"

definition rollback_if_conn :: "locals \<Rightarrow> world \<Rightarrow> (exn + unit) \<times> world" where
  "rollback_if_conn l w = (case conn_var l of Some c \<Rightarrow> rollback c w | None \<Rightarrow> (Inr (), w))"

text \<open>
  The handlers of \<^verbatim>\<open>init_database\<close> and of \<^verbatim>\<open>populate_facts\<close>, which are the same:
  \<^verbatim>\<open>except Error\<close> rolls back if \<^verbatim>\<open>conn\<close> is bound and re-raises with a bare
  \<^verbatim>\<open>raise\<close>; \<^verbatim>\<open>except Exception\<close> re-raises. The rollback call is not guarded: if it
  raises, its exception leaves the handler in place of the one that was caught.
\<close>

definition except_rollback :: "locals \<Rightarrow> (exn + 'a) \<times> world \<Rightarrow> (exn + 'a) \<times> world" where
  "except_rollback l rw =
     (case rw of
        (Inr x, w) \<Rightarrow> (Inr x, w)
      | (Inl (Error m), w) \<Rightarrow>
          (case rollback_if_conn l w of
             (Inl e, w1) \<Rightarrow> (Inl e, w1)
           | (Inr _, w1) \<Rightarrow> (Inl (Error m), w1))
      | (Inl (Exception m), w) \<Rightarrow> (Inl (Exception m), w))"

subsection \<open>\<^verbatim>\<open>populate_facts\<close>\<close>

definition facts :: "string list" where
  "facts =
    [''The first computer bug was an actual bug - a moth found in the Harvard Mark II computer in 1947.'',
     ''A group of flamingos is called a 'flamboyance'.'',
     ''Octopuses have three hearts and blue blood.'',
     ''Honey never spoils - archaeologists have found 3000-year-old honey that's still edible.'',
     ''Bananas are berries, but strawberries aren't.'',
     ''A day on Venus is longer than its year.'',
     ''Sharks have been around longer than trees.'',
     ''Wombat poop is cube-shaped.'',
     ''A single cloud can weigh more than a million pounds.'',
     ''The human brain uses about 20% of the body's total energy.'',
     ''Dolphins have names for each other.'',
     ''A group of owls is called a 'parliament'.'',
     ''The first email was sent in 1971.'',
     ''There are more possible games of chess than atoms in the observable universe.'',
     ''A 'jiffy' is an actual unit of time - 1/100th of a second.'']"

text \<open>\<^verbatim>\<open>row[0]\<close> for what \<^verbatim>\<open>fetchone\<close> returned, and \<^verbatim>\<open>v > 0\<close>.\<close>

definition subscript0 :: "row option \<Rightarrow> exn + val" where
  "subscript0 r = (case r of
      None \<Rightarrow> Inl (Exception (CHR 0x27 # ''NoneType' object is not subscriptable''))
    | Some [] \<Rightarrow> Inl (Exception ''tuple index out of range'')
    | Some (v # _) \<Rightarrow> Inr v)"

definition gt0 :: "val \<Rightarrow> exn + bool" where
  "gt0 v = (case v of
      IntV n \<Rightarrow> Inr (n > 0)
    | StrV _ \<Rightarrow> Inl (Exception (CHR 0x27 # ''>' not supported between instances of 'str' and 'int'' @ [CHR 0x27])))"

text \<open>The body of the \<^verbatim>\<open>try\<close> (lines 134 to 172).\<close>

definition populate_try :: "world \<Rightarrow> (exn + unit) \<times> locals \<times> world" where
  "populate_try w =
     (case get_db_connection w of
        (Inl e, w1) \<Rightarrow> (Inl e, \<lparr>conn_var = None, cursor_var = None\<rparr>, w1)
      | (Inr c, w1) \<Rightarrow>
     (case cursor c w1 of
        (Inl e, w2) \<Rightarrow> (Inl e, \<lparr>conn_var = Some c, cursor_var = None\<rparr>, w2)
      | (Inr cur, w2) \<Rightarrow>
     (let l = \<lparr>conn_var = Some c, cursor_var = Some cur\<rparr> in
     (case execute cur SELECT_COUNT w2 of
        (Inl e, w3) \<Rightarrow> (Inl e, l, w3)
      | (Inr _, w3) \<Rightarrow>
     (case fetchone cur w3 of
        (Inl e, w4) \<Rightarrow> (Inl e, l, w4)
      | (Inr r, w4) \<Rightarrow>
     (case subscript0 r of
        Inl e \<Rightarrow> (Inl e, l, w4)
      | Inr fact_count \<Rightarrow>
     (case gt0 fact_count of
        Inl e \<Rightarrow> (Inl e, l, w4)
      | Inr True \<Rightarrow> (Inr (), l, w4)
      | Inr False \<Rightarrow>
     (case executemany cur facts w4 of
        (Inl e, w5) \<Rightarrow> (Inl e, l, w5)
      | (Inr _, w5) \<Rightarrow>
     (case commit c w5 of
        (Inl e, w6) \<Rightarrow> (Inl e, l, w6)
      | (Inr _, w6) \<Rightarrow> (Inr (), l, w6))))))))))"

text \<open>The body, then the handlers, then the \<^verbatim>\<open>finally\<close> block (lines 173 to 185).\<close>

definition populate_facts :: "world \<Rightarrow> (exn + unit) \<times> world" where
  "populate_facts w =
     (case populate_try w of (r, l, w1) \<Rightarrow> finally_close l (except_rollback l (r, w1)))"

subsection \<open>\<^verbatim>\<open>init_database\<close>\<close>

text \<open>Lines 83 to 100: connect, open a cursor, create the table, commit.\<close>

definition create_table :: "world \<Rightarrow> (exn + unit) \<times> locals \<times> world" where
  "create_table w =
     (case get_db_connection w of
        (Inl e, w1) \<Rightarrow> (Inl e, \<lparr>conn_var = None, cursor_var = None\<rparr>, w1)
      | (Inr c, w1) \<Rightarrow>
     (case cursor c w1 of
        (Inl e, w2) \<Rightarrow> (Inl e, \<lparr>conn_var = Some c, cursor_var = None\<rparr>, w2)
      | (Inr cur, w2) \<Rightarrow>
     (let l = \<lparr>conn_var = Some c, cursor_var = Some cur\<rparr> in
     (case execute cur CREATE_TABLE w2 of
        (Inl e, w3) \<Rightarrow> (Inl e, l, w3)
      | (Inr _, w3) \<Rightarrow>
     (case commit c w3 of
        (Inl e, w4) \<Rightarrow> (Inl e, l, w4)
      | (Inr _, w4) \<Rightarrow> (Inr (), l, w4))))))"

text \<open>
  Lines 104 to 108: the inner \<^verbatim>\<open>try\<close> around \<^verbatim>\<open>populate_facts()\<close> catches every
  \<^verbatim>\<open>Exception\<close> and only logs it.
\<close>

definition populate_logged :: "world \<Rightarrow> (exn + unit) \<times> world" where
  "populate_logged w =
     (case populate_facts w of
        (Inr u, w1) \<Rightarrow> (Inr u, w1)
      | (Inl (Error m), w1) \<Rightarrow> (Inr (), w1)
      | (Inl (Exception m), w1) \<Rightarrow> (Inr (), w1))"

definition init_try :: "world \<Rightarrow> (exn + unit) \<times> locals \<times> world" where
  "init_try w =
     (case create_table w of
        (Inl e, l, w1) \<Rightarrow> (Inl e, l, w1)
      | (Inr _, l, w1) \<Rightarrow> (case populate_logged w1 of (r, w2) \<Rightarrow> (r, l, w2)))"

text \<open>The body, then the handlers, then the \<^verbatim>\<open>finally\<close> block (lines 109 to 125).\<close>

definition init_database :: "world \<Rightarrow> (exn + unit) \<times> world" where
  "init_database w =
     (case init_try w of (r, l, w1) \<Rightarrow> finally_close l (except_rollback l (r, w1)))"

subsection \<open>\<^verbatim>\<open>get_random_fact\<close>\<close>

text \<open>
  The body of the \<^verbatim>\<open>try\<close>. A fetched row is a non-empty tuple and so true; its first
  column is sliced for the log line (which an integer would not allow) and returned.
\<close>

definition random_fact_try :: "world \<Rightarrow> (exn + string option) \<times> locals \<times> world" where
  "random_fact_try w =
     (case get_db_connection w of
        (Inl e, w1) \<Rightarrow> (Inl e, \<lparr>conn_var = None, cursor_var = None\<rparr>, w1)
      | (Inr c, w1) \<Rightarrow>
     (case cursor c w1 of
        (Inl e, w2) \<Rightarrow> (Inl e, \<lparr>conn_var = Some c, cursor_var = None\<rparr>, w2)
      | (Inr cur, w2) \<Rightarrow>
     (let l = \<lparr>conn_var = Some c, cursor_var = Some cur\<rparr> in
     (case execute cur SELECT_RANDOM w2 of
        (Inl e, w3) \<Rightarrow> (Inl e, l, w3)
      | (Inr _, w3) \<Rightarrow>
     (case fetchone cur w3 of
        (Inl e, w4) \<Rightarrow> (Inl e, l, w4)
      | (Inr result, w4) \<Rightarrow>
     (case result of
        None \<Rightarrow> (Inr None, l, w4)
      | Some [] \<Rightarrow> (Inr None, l, w4)
      | Some (StrV s # _) \<Rightarrow> (Inr (Some s), l, w4)
      | Some (IntV n # _) \<Rightarrow>
          (Inl (Exception (CHR 0x27 # ''int' object is not subscriptable'')), l, w4)))))))"

text \<open>
  Both handlers return \<^verbatim>\<open>None\<close>; the \<^verbatim>\<open>finally\<close> block then closes what was opened
  (lines 203 to 214).
\<close>

definition get_random_fact :: "world \<Rightarrow> (exn + string option) \<times> world" where
  "get_random_fact w =
     (case random_fact_try w of (r, l, w1) \<Rightarrow>
        finally_close l
          (case r of
             Inr x \<Rightarrow> (Inr x, w1)
           | Inl (Error m) \<Rightarrow> (Inr None, w1)
           | Inl (Exception m) \<Rightarrow> (Inr None, w1)))"

subsection \<open>\<^verbatim>\<open>hello_world\<close>\<close>

text \<open>
  The response is a Python dictionary of strings and one nested dictionary, kept as an
  association list in insertion order. \<open>dict_set\<close> is \<^verbatim>\<open>d[k] = v\<close>.
\<close>

datatype json = JStr string | JObj "(string \<times> json) list"

type_synonym dict = "(string \<times> json) list"

fun dict_set :: "dict \<Rightarrow> string \<Rightarrow> json \<Rightarrow> dict" where
  "dict_set [] k v = [(k, v)]"
| "dict_set ((k', v') # d) k v = (if k' = k then (k, v) # d else (k', v') # dict_set d k v)"

definition dict_get :: "dict \<Rightarrow> string \<Rightarrow> json option" where
  "dict_get d k = map_of d k"

text \<open>
  The version marker: \<^verbatim>\<open>os.path.join(os.path.dirname(__file__), 'VERSION')\<close>, or
  \<^verbatim>\<open>/app/VERSION\<close> when that does not exist; a file that cannot be read is skipped.
\<close>

definition path_join :: "string \<Rightarrow> string \<Rightarrow> string" where
  "path_join a b = (if a = [] \<or> last a = CHR ''/'' then a @ b else a @ ''/'' @ b)"

definition read_version :: "world \<Rightarrow> string option" where
  "read_version w =
     (let p = path_join (app_dir w) ''VERSION'';
          version_file_path = (if files w p = None then ''/app/VERSION'' else p)
      in case files w version_file_path of
           None \<Rightarrow> None
         | Some Unreadable \<Rightarrow> None
         | Some (Readable s) \<Rightarrow> Some (py_strip s))"

definition placeholder :: string where
  "placeholder = ''No facts found in database. Please run the installation script to populate facts.''"

text \<open>
  Lines 272 to 294. \<open>db_init_error\<close> is \<^verbatim>\<open>str(e)\<close> of what \<^verbatim>\<open>init_database\<close> raised, or
  \<^verbatim>\<open>None\<close>; the tests are Python truth tests, so an empty string counts as absent.
  \<open>str_of\<close> is the string a value is written as; where it is used on the value of a
  variable that passed its truth test, it is that string.
\<close>

definition str_of :: "string option \<Rightarrow> string" where
  "str_of x = (case x of None \<Rightarrow> ''None'' | Some s \<Rightarrow> s)"

definition build_response ::
    "string \<Rightarrow> string \<Rightarrow> string option \<Rightarrow> string option \<Rightarrow> string option \<Rightarrow> dict" where
  "build_response db_host db_name version db_init_error random_fact =
     (let response = [(''message'', JStr ''Hello, World!''),
                      (''database'', JObj [(''host'', JStr db_host), (''name'', JStr db_name)])];
          response = (if truthy version then dict_set response ''version'' (JStr (str_of version))
                      else response);
          response = (if truthy db_init_error
                      then dict_set
                             (dict_set response ''error''
                                (JStr (''Database initialization failed: '' @ str_of db_init_error)))
                             ''status'' (JStr ''degraded'')
                      else dict_set response ''status'' (JStr ''healthy''));
          response = (if truthy random_fact
                      then dict_set response ''random_fact'' (JStr (str_of random_fact))
                      else if \<not> truthy db_init_error
                           then dict_set response ''random_fact'' (JStr placeholder)
                           else response)
      in response)"

text \<open>
  The body of the outer \<^verbatim>\<open>try\<close> (lines 228 to 298). The two inner \<^verbatim>\<open>try\<close> blocks catch
  every \<^verbatim>\<open>Exception\<close>: a failed initialisation leaves its text in \<open>db_init_error\<close>,
  a failed retrieval leaves \<open>random_fact\<close> at \<^verbatim>\<open>None\<close>.
\<close>

definition hello_world_try :: "world \<Rightarrow> (exn + dict \<times> nat) \<times> world" where
  "hello_world_try w =
     (let db_host = getenv (env w) ''DB_HOST'' ''localhost'';
          db_name = getenv (env w) ''DB_NAME'' ''hello_world''
      in case init_database w of (r_init, w1) \<Rightarrow>
         (let db_init_error = (case r_init of Inl e \<Rightarrow> Some (str_exn e) | Inr _ \<Rightarrow> None)
          in case get_random_fact w1 of (r_fact, w2) \<Rightarrow>
             (let random_fact = (case r_fact of Inl e \<Rightarrow> None | Inr f \<Rightarrow> f);
                  version = read_version w2
              in (Inr (build_response db_host db_name version db_init_error random_fact, 200), w2))))"

text \<open>The outer handler answers 500 with the text of whatever escaped the body.\<close>

definition hello_world :: "world \<Rightarrow> (dict \<times> nat) \<times> world" where
  "hello_world w =
     (let db_host = getenv (env w) ''DB_HOST'' ''localhost'';
          db_name = getenv (env w) ''DB_NAME'' ''hello_world''
      in case hello_world_try w of
           (Inr resp, w1) \<Rightarrow> (resp, w1)
         | (Inl e, w1) \<Rightarrow>
             (([(''message'', JStr ''Hello, World!''),
                (''error'', JStr (str_exn e)),
                (''database'', JObj [(''host'', JStr db_host), (''name'', JStr db_name)])], 500), w1))"

subsection \<open>Notions used in the statements\<close>

text \<open>
  \<open>next_fault p\<close> is what the plan \<open>p\<close> does to the next driver call, and
  \<open>calls_ok n p\<close> says that it lets the next \<open>n\<close> driver calls run.
\<close>

definition next_fault :: "exn option list \<Rightarrow> exn option" where
  "next_fault p = (case p of [] \<Rightarrow> None | f # _ \<Rightarrow> f)"

fun calls_ok :: "nat \<Rightarrow> exn option list \<Rightarrow> bool" where
  "calls_ok 0 p = True"
| "calls_ok (Suc n) p = (next_fault p = None \<and> calls_ok n (tl p))"

text \<open>The argument \<^verbatim>\<open>port=int(db_port)\<close> of the connect call, under the environment.\<close>

definition port_arg :: "world \<Rightarrow> exn + int" where
  "port_arg w = py_int (getenv (env w) ''DB_PORT'' ''3306'')"

text \<open>The insert calls and the rollback calls among the driver calls made so far.\<close>

definition is_insert :: "event \<Rightarrow> bool" where
  "is_insert ev = (case ev of ExecuteMany _ _ \<Rightarrow> True | _ \<Rightarrow> False)"

definition inserts :: "world \<Rightarrow> event list" where
  "inserts w = filter is_insert (trace w)"

definition is_rollback :: "event \<Rightarrow> bool" where
  "is_rollback ev = (case ev of Rollback _ \<Rightarrow> True | _ \<Rightarrow> False)"

definition rollbacks :: "world \<Rightarrow> event list" where
  "rollbacks w = filter is_rollback (trace w)"

text \<open>
  A step of the \<^verbatim>\<open>try\<close> body of \<^verbatim>\<open>get_random_fact\<close> raises: \<^verbatim>\<open>int(db_port)\<close>, or
  one of its four driver calls (connect, cursor, execute, fetchone) under the plan, or
  the \<^verbatim>\<open>SELECT\<close> because the table does not exist.
\<close>

definition read_fails :: "world \<Rightarrow> bool" where
  "read_fails w = (isl (port_arg w) \<or> \<not> calls_ok 4 (plan w) \<or> table w = None)"

text \<open>The response of a request and the outcome of its two database steps.\<close>

definition response_of :: "world \<Rightarrow> dict" where
  "response_of w = fst (fst (hello_world w))"

definition http_status :: "world \<Rightarrow> nat" where
  "http_status w = snd (fst (hello_world w))"

definition init_outcome :: "world \<Rightarrow> exn + unit" where
  "init_outcome w = fst (init_database w)"

definition fact_outcome :: "world \<Rightarrow> exn + string option" where
  "fact_outcome w = fst (get_random_fact (snd (init_database w)))"

text \<open>The variables \<^verbatim>\<open>db_init_error\<close> and \<^verbatim>\<open>random_fact\<close> of the handler.\<close>

definition init_error :: "world \<Rightarrow> string option" where
  "init_error w = (case init_outcome w of Inl e \<Rightarrow> Some (str_exn e) | Inr _ \<Rightarrow> None)"

definition fact_var :: "world \<Rightarrow> string option" where
  "fact_var w = (case fact_outcome w of Inl e \<Rightarrow> None | Inr f \<Rightarrow> f)"



text \<open>
  The driver calls of a \<^verbatim>\<open>finally\<close> block, and the rollback call of the handlers for
  what the body raised, given the variables that were bound.
\<close>

definition close_calls :: "locals \<Rightarrow> event list" where
  "close_calls l =
     (case cursor_var l of Some cur \<Rightarrow> [CursorClose cur] | None \<Rightarrow> [])
     @ (case conn_var l of Some c \<Rightarrow> [ConnClose c] | None \<Rightarrow> [])"

definition rollback_calls :: "exn \<Rightarrow> locals \<Rightarrow> event list" where
  "rollback_calls e l =
     (case e of
        Error _ \<Rightarrow> (case conn_var l of Some c \<Rightarrow> [Rollback c] | None \<Rightarrow> [])
      | Exception _ \<Rightarrow> [])"

text \<open>What the body of \<^verbatim>\<open>get_random_fact\<close> had bound and the world it left when it stopped.\<close>

definition read_locals :: "world \<Rightarrow> locals" where
  "read_locals w = fst (snd (random_fact_try w))"

definition after_read :: "world \<Rightarrow> world" where
  "after_read w = snd (snd (random_fact_try w))"


subsection \<open>Worlds to run the code on\<close>

text \<open>
  A fresh server: nothing set in the environment, no table, no failure planned.
  The others differ from it in the table or in the plan.
\<close>

definition world0 :: world where
  "world0 = \<lparr>env = (\<lambda>_. None), table = None, pending = (\<lambda>_. []), results = (\<lambda>_. []),
             next_id = 0, plan = [], rand = 0, trace = [], app_dir = ''/app'',
             files = (\<lambda>_. None)\<rparr>"

definition cannot_connect :: exn where
  "cannot_connect = Error ''2003: Can't connect to MySQL server on 'localhost:3306' (111)''"

text \<open>Every connection attempt of a request is refused (a request makes two).\<close>

definition world_down :: world where
  "world_down = world0\<lparr>plan := [Some cannot_connect, Some cannot_connect]\<rparr>"

definition world_two_rows :: world where
  "world_two_rows = world0\<lparr>table := Some [''first fact'', ''second fact'']\<rparr>"

definition world_empty_table :: world where
  "world_empty_table = world0\<lparr>table := Some []\<rparr>"

definition world_seeded :: world where
  "world_seeded = world0\<lparr>table := Some facts\<rparr>"

definition insert_refused :: exn where
  "insert_refused = Error ''1142 (42000): INSERT command denied to user''"

text \<open>The table is empty and the fifth driver call, the batch insert, is refused.\<close>

definition world_insert_fails :: world where
  "world_insert_fails = world0\<lparr>table := Some [], plan := [None, None, None, None, Some insert_refused]\<rparr>"

text \<open>The first driver call raises an exception that is no database error and has no text.\<close>

definition world_silent_failure :: world where
  "world_silent_failure = world0\<lparr>plan := [Some (Exception [])]\<rparr>"

text \<open>The schema is created; the seeder's connection, the fifth driver call, is refused.\<close>

definition world_seed_down :: world where
  "world_seed_down = world0\<lparr>plan := [None, None, None, None, Some cannot_connect]\<rparr>"

definition create_denied :: exn where
  "create_denied = Error ''1142 (42000): CREATE command denied to user''"

text \<open>The connection and the cursor are obtained; the third call, the create statement, is refused.\<close>

definition world_create_fails :: world where
  "world_create_fails = world0\<lparr>plan := [None, None, Some create_denied]\<rparr>"

text \<open>
  The table holds one row whose text is empty; the first connection is refused, the
  second (that of the fact reader) is not.
\<close>

definition world_empty_fact :: world where
  "world_empty_fact = world0\<lparr>table := Some [[]], plan := [Some cannot_connect]\<rparr>"

definition lost_connection :: exn where
  "lost_connection = Error ''2013: Lost connection to MySQL server during query''"

definition not_available :: exn where
  "not_available = Error ''MySQL Connection not available.''"

text \<open>Two rows; the four calls of the read run, the fifth call, \<^verbatim>\<open>cursor.close()\<close>, raises.\<close>

definition world_close_fails :: world where
  "world_close_fails =
     world0\<lparr>table := Some [''first fact'', ''second fact''],
            plan := [None, None, None, None, Some not_available]\<rparr>"

text \<open>Both connection attempts of a request raise an exception that has no text.\<close>

definition world_all_silent :: world where
  "world_all_silent = world0\<lparr>plan := [Some (Exception []), Some (Exception [])]\<rparr>"

text \<open>
  The connection is lost while the create statement runs (third call); the rollback
  that follows (fourth call) finds no connection.
\<close>

definition world_rollback_fails :: world where
  "world_rollback_fails = world0\<lparr>plan := [None, None, Some lost_connection, Some not_available]\<rparr>"

text \<open>
  The table is empty; the connection is lost during the batch insert (fifth call) and
  the rollback (sixth call) finds no connection.
\<close>

definition world_insert_rollback_fail :: world where
  "world_insert_rollback_fail =
     world0\<lparr>table := Some [],
            plan := [None, None, None, None, Some lost_connection, Some not_available]\<rparr>"

section \<open>Properties\<close>

subsection \<open>Driver calls, one at a time\<close>

lemma driver_call_eq:
  "driver_call ev eff w =
     (case next_fault (plan w) of
        Some e \<Rightarrow> (Inl e, w\<lparr>trace := trace w @ [ev], plan := tl (plan w)\<rparr>)
      | None \<Rightarrow> eff (w\<lparr>trace := trace w @ [ev], plan := tl (plan w)\<rparr>))"
proof (cases "plan w")
  case Nil
  have same: "w\<lparr>trace := trace w @ [ev], plan := tl (plan w)\<rparr> = log_call ev w"
    using Nil by (intro world.equality) (simp_all add: log_call_def)
  have nf: "next_fault (plan w) = None"
    using Nil by (simp add: next_fault_def)
  have "driver_call ev eff w = eff (log_call ev w)"
    using Nil by (simp add: driver_call_def fault_def log_call_def)
  then show ?thesis
    unfolding nf same option.case .
next
  case (Cons f fs)
  then show ?thesis
    by (simp add: driver_call_def fault_def log_call_def next_fault_def split: option.splits)
qed

lemma connect_step:
  assumes "connect p w = (r, w')"
  shows "table w' = table w \<and> env w' = env w \<and> rand w' = rand w \<and> plan w' = tl (plan w)
       \<and> trace w' = trace w @ [Connect p]
       \<and> r = (case next_fault (plan w) of Some e \<Rightarrow> Inl e | None \<Rightarrow> Inr (next_id w))
       \<and> (\<forall>c. r = Inr c \<longrightarrow> pending w' c = [] \<and> results w' c = [])"
  using assms by (auto simp: connect_def driver_call_eq split: option.splits)

lemma get_db_connection_step:
  assumes "get_db_connection w = (r, w')"
  shows "table w' = table w \<and> env w' = env w \<and> rand w' = rand w
       \<and> (case port_arg w of
             Inl e \<Rightarrow> r = Inl e \<and> plan w' = plan w \<and> trace w' = trace w
           | Inr p \<Rightarrow> plan w' = tl (plan w) \<and> trace w' = trace w @ [Connect (db_params (env w) p)]
                 \<and> r = (case next_fault (plan w) of Some e \<Rightarrow> Inl e | None \<Rightarrow> Inr (next_id w)))
       \<and> (\<forall>c. r = Inr c \<longrightarrow> pending w' c = [] \<and> results w' c = [])"
  using assms
  by (auto simp: get_db_connection_def port_arg_def Let_def
      split: sum.splits prod.splits exn.splits option.splits dest!: connect_step)

lemma cursor_step:
  assumes "cursor c w = (r, w')"
  shows "table w' = table w \<and> env w' = env w \<and> rand w' = rand w \<and> plan w' = tl (plan w)
       \<and> trace w' = trace w @ [Cursor c] \<and> pending w' = pending w \<and> results w' = results w
       \<and> r = (case next_fault (plan w) of Some e \<Rightarrow> Inl e | None \<Rightarrow> Inr c)"
  using assms by (auto simp: cursor_def driver_call_eq split: option.splits)

lemma execute_select_step:
  assumes "execute c s w = (r, w')" "s \<noteq> CREATE_TABLE"
  shows "table w' = table w \<and> env w' = env w \<and> rand w' = rand w \<and> plan w' = tl (plan w)
       \<and> trace w' = trace w @ [Execute c s] \<and> pending w' = pending w
       \<and> r = (case next_fault (plan w) of Some e \<Rightarrow> Inl e
               | None \<Rightarrow> (case table w of None \<Rightarrow> Inl no_table | Some _ \<Rightarrow> Inr ()))
       \<and> (\<forall>u rows. r = Inr u \<longrightarrow> table w = Some rows \<longrightarrow> results w' c =
            (case s of SELECT_COUNT \<Rightarrow> [[IntV (int (length (rows @ pending w c)))]]
             | _ \<Rightarrow> (if rows @ pending w c = [] then []
                     else [[StrV ((rows @ pending w c) ! (rand w mod length (rows @ pending w c)))]])))"
  using assms
  by (cases s) (auto simp: execute_def driver_call_eq run_stmt_def visible_def split: option.splits)

lemma fetchone_step:
  assumes "fetchone c w = (r, w')"
  shows "table w' = table w \<and> env w' = env w \<and> rand w' = rand w \<and> plan w' = tl (plan w)
       \<and> trace w' = trace w @ [FetchOne c] \<and> pending w' = pending w
       \<and> r = (case next_fault (plan w) of Some e \<Rightarrow> Inl e
               | None \<Rightarrow> Inr (case results w c of [] \<Rightarrow> None | y # _ \<Rightarrow> Some y))"
  using assms by (auto simp: fetchone_def driver_call_eq split: option.splits list.splits)

lemma executemany_step:
  assumes "executemany c ps w = (r, w')"
  shows "table w' = table w \<and> env w' = env w \<and> rand w' = rand w \<and> plan w' = tl (plan w)
       \<and> trace w' = trace w @ [ExecuteMany c ps]
       \<and> r = (case next_fault (plan w) of Some e \<Rightarrow> Inl e
               | None \<Rightarrow> (case table w of None \<Rightarrow> Inl no_table | Some _ \<Rightarrow> Inr ()))
       \<and> pending w' = (case r of Inl _ \<Rightarrow> pending w | Inr _ \<Rightarrow> (pending w)(c := pending w c @ ps))"
  using assms by (auto simp: executemany_def driver_call_eq split: option.splits)

lemma commit_step:
  assumes "commit c w = (r, w')"
  shows "env w' = env w \<and> rand w' = rand w \<and> plan w' = tl (plan w)
       \<and> trace w' = trace w @ [Commit c]
       \<and> r = (case next_fault (plan w) of Some e \<Rightarrow> Inl e | None \<Rightarrow> Inr ())
       \<and> table w' = (case r of Inl _ \<Rightarrow> table w
                      | Inr _ \<Rightarrow> map_option (\<lambda>rows. rows @ pending w c) (table w))"
  using assms by (auto simp: commit_def driver_call_eq visible_def split: option.splits)


lemma rollback_step:
  assumes "rollback c w = (r, w')"
  shows "table w' = table w \<and> env w' = env w \<and> rand w' = rand w \<and> plan w' = tl (plan w)
       \<and> trace w' = trace w @ [Rollback c]
       \<and> r = (case next_fault (plan w) of Some e \<Rightarrow> Inl e | None \<Rightarrow> Inr ())"
  using assms by (auto simp: rollback_def driver_call_eq split: option.splits)

lemma cursor_close_step:
  assumes "cursor_close c w = (r, w')"
  shows "table w' = table w \<and> env w' = env w \<and> rand w' = rand w \<and> plan w' = tl (plan w)
       \<and> trace w' = trace w @ [CursorClose c]
       \<and> r = (case next_fault (plan w) of Some e \<Rightarrow> Inl e | None \<Rightarrow> Inr ())"
  using assms by (auto simp: cursor_close_def driver_call_eq split: option.splits)

lemma conn_close_step:
  assumes "conn_close c w = (r, w')"
  shows "table w' = table w \<and> env w' = env w \<and> rand w' = rand w \<and> plan w' = tl (plan w)
       \<and> trace w' = trace w @ [ConnClose c]
       \<and> r = (case next_fault (plan w) of Some e \<Rightarrow> Inl e | None \<Rightarrow> Inr ())"
  using assms by (auto simp: conn_close_def driver_call_eq split: option.splits)

lemma close_all_step:
  assumes "close_all l w = (r, w')"
  shows "table w' = table w \<and> env w' = env w \<and> rand w' = rand w
       \<and> inserts w' = inserts w \<and> rollbacks w' = rollbacks w
       \<and> (\<forall>e. r = Inl e \<longrightarrow> Some e \<in> set (take 2 (plan w)))
       \<and> (calls_ok (length (close_calls l)) (plan w) \<longrightarrow>
            r = Inr () \<and> trace w' = trace w @ close_calls l
            \<and> plan w' = drop (length (close_calls l)) (plan w))"
  using assms
  apply (simp add: close_all_def split: prod.splits sum.splits option.splits)
  apply (auto dest!: cursor_close_step conn_close_step
      simp: inserts_def rollbacks_def is_insert_def is_rollback_def close_calls_def next_fault_def
            numeral_eq_Suc drop_Suc
      split: option.splits list.splits)
  done

subsection \<open>Handlers and \<^verbatim>\<open>finally\<close> blocks\<close>

lemma calls_ok_add: "calls_ok (m + k) p = (calls_ok m p \<and> calls_ok k (drop m p))"
  by (induction m arbitrary: p) (auto simp: drop_Suc)


lemma in_take_drop: "x \<in> set (take n (drop m p)) \<Longrightarrow> x \<in> set (take (m + n) p)"
  by (simp add: take_add)

lemma in_take_mono: "x \<in> set (take m p) \<Longrightarrow> m \<le> n \<Longrightarrow> x \<in> set (take n p)"
  using set_take_subset_set_take[of m n p] by auto

lemma rollback_if_conn_step:
  assumes "rollback_if_conn l w = (r, w')"
  shows "table w' = table w \<and> env w' = env w \<and> rand w' = rand w \<and> inserts w' = inserts w
       \<and> (\<forall>e. r = Inl e \<longrightarrow> Some e \<in> set (take 1 (plan w)))
       \<and> (case conn_var l of
             None \<Rightarrow> r = Inr () \<and> trace w' = trace w \<and> plan w' = plan w
           | Some c \<Rightarrow> trace w' = trace w @ [Rollback c] \<and> plan w' = tl (plan w)
               \<and> r = (case next_fault (plan w) of Some e \<Rightarrow> Inl e | None \<Rightarrow> Inr ()))"
  using assms
  by (auto simp: rollback_if_conn_def inserts_def is_insert_def next_fault_def
      dest!: rollback_step split: option.splits list.splits)

lemma except_rollback_step:
  assumes "except_rollback l (r, w) = (r', w')"
  shows "table w' = table w \<and> env w' = env w \<and> rand w' = rand w \<and> inserts w' = inserts w
       \<and> trace w' = trace w @ (case r of Inl e \<Rightarrow> rollback_calls e l | Inr _ \<Rightarrow> [])
       \<and> plan w' = drop (length (case r of Inl e \<Rightarrow> rollback_calls e l | Inr _ \<Rightarrow> [])) (plan w)
       \<and> (\<forall>x. r = Inr x \<longrightarrow> r' = r)
       \<and> (\<forall>e. r = Inl e \<longrightarrow> (\<exists>e'. r' = Inl e' \<and> (e' = e \<or> Some e' \<in> set (take 1 (plan w)))))
       \<and> (\<forall>e. r = Inl e \<and> calls_ok (length (rollback_calls e l)) (plan w) \<longrightarrow> r' = r)"
  using assms
  apply (simp add: except_rollback_def split: sum.splits exn.splits prod.splits)
  apply (auto dest!: rollback_if_conn_step simp: rollback_calls_def drop_Suc split: option.splits)
  done

lemma cleanup_step:
  assumes "finally_close l (except_rollback l (r, w)) = (r', w')"
  shows "table w' = table w \<and> env w' = env w \<and> rand w' = rand w \<and> inserts w' = inserts w
       \<and> rollbacks w' = rollbacks w @ (case r of Inl e \<Rightarrow> rollback_calls e l | Inr _ \<Rightarrow> [])
       \<and> (\<forall>x. r = Inr x \<longrightarrow> r' = r \<or> (\<exists>e'. r' = Inl e' \<and> Some e' \<in> set (take 2 (plan w))))
       \<and> (\<forall>e. r = Inl e \<longrightarrow> (\<exists>e'. r' = Inl e' \<and> (e' = e \<or> Some e' \<in> set (take 3 (plan w)))))
       \<and> (calls_ok (length ((case r of Inl e \<Rightarrow> rollback_calls e l | Inr _ \<Rightarrow> []) @ close_calls l)) (plan w)
            \<longrightarrow> r' = r
              \<and> trace w' = trace w @ (case r of Inl e \<Rightarrow> rollback_calls e l | Inr _ \<Rightarrow> []) @ close_calls l)"
proof -
  let ?rb = "(case r of Inl e \<Rightarrow> rollback_calls e l | Inr _ \<Rightarrow> [])"
  obtain r1 w1 where h: "except_rollback l (r, w) = (r1, w1)"
    by (metis surj_pair)
  obtain r2 w2 where c: "close_all l w1 = (r2, w2)"
    by (metis surj_pair)
  note H = except_rollback_step[OF h]
  note C = close_all_step[OF c]
  have res: "r' = (case r2 of Inl e \<Rightarrow> Inl e | Inr _ \<Rightarrow> r1)" "w' = w2"
    using assms h c by (auto simp: finally_close_def split: sum.splits)
  have len: "length ?rb \<le> 1"
    by (auto simp: rollback_calls_def split: sum.splits exn.splits option.splits)
  have frame: "table w' = table w \<and> env w' = env w \<and> rand w' = rand w \<and> inserts w' = inserts w"
    using H C res by simp
  have rbs: "rollbacks w' = rollbacks w @ ?rb"
    using H C res
    by (auto simp: rollbacks_def is_rollback_def rollback_calls_def split: sum.splits exn.splits option.splits)
  have late: "Some e \<in> set (take 3 (plan w))" if "r2 = Inl e" for e
  proof -
    from C that have "Some e \<in> set (take 2 (plan w1))" by simp
    with H have "Some e \<in> set (take 2 (drop (length ?rb) (plan w)))" by simp
    from in_take_drop[OF this] have "Some e \<in> set (take (length ?rb + 2) (plan w))" .
    then show ?thesis using len in_take_mono by fastforce
  qed
  have late2: "Some e \<in> set (take 2 (plan w))" if "r2 = Inl e" "r = Inr x" for e x
  proof -
    from C that have "Some e \<in> set (take 2 (plan w1))" by simp
    with H that show ?thesis by simp
  qed
  have okr: "\<forall>x. r = Inr x \<longrightarrow> r' = r \<or> (\<exists>e'. r' = Inl e' \<and> Some e' \<in> set (take 2 (plan w)))"
    using H res late2 by (cases r2) auto
  have oke: "\<forall>e. r = Inl e \<longrightarrow> (\<exists>e'. r' = Inl e' \<and> (e' = e \<or> Some e' \<in> set (take 3 (plan w))))"
  proof (intro allI impI)
    fix e assume re: "r = Inl e"
    with H obtain e1 where e1: "r1 = Inl e1" "e1 = e \<or> Some e1 \<in> set (take 1 (plan w))"
      by blast
    show "\<exists>e'. r' = Inl e' \<and> (e' = e \<or> Some e' \<in> set (take 3 (plan w)))"
    proof (cases r2)
      case (Inl e2)
      with res late show ?thesis by simp
    next
      case (Inr u)
      with res e1 in_take_mono[of "Some e1" 1 "plan w" 3] show ?thesis by auto
    qed
  qed
  have exact: "r' = r \<and> trace w' = trace w @ ?rb @ close_calls l"
    if ok: "calls_ok (length (?rb @ close_calls l)) (plan w)"
  proof -
    from ok have a: "calls_ok (length ?rb) (plan w)" "calls_ok (length (close_calls l)) (drop (length ?rb) (plan w))"
      by (simp_all add: calls_ok_add)
    from a(1) H have r1: "r1 = r"
      by (cases r) auto
    from a(2) H C have "r2 = Inr () \<and> trace w2 = trace w1 @ close_calls l"
      by simp
    with r1 res H show ?thesis by simp
  qed
  from frame rbs okr oke exact show ?thesis by blast
qed

subsection \<open>Running the code on a given world\<close>

lemma py_int_3306: "py_int ''3306'' = Inr 3306"
  by (simp add: py_int_def strip_with_def is_int_space_def is_digit_def digit_val_def)

lemmas run_defs = get_random_fact_def random_fact_try_def get_db_connection_def connect_def
  cursor_def execute_def executemany_def fetchone_def commit_def
  rollback_def cursor_close_def conn_close_def driver_call_def fault_def log_call_def
  run_stmt_def visible_def close_all_def rollback_if_conn_def finally_close_def except_rollback_def
  getenv_def db_params_def
  populate_facts_def populate_try_def init_database_def init_try_def create_table_def
  populate_logged_def subscript0_def gt0_def py_int_3306 port_arg_def next_fault_def

lemmas world_defs = world0_def world_down_def world_two_rows_def world_empty_table_def
  world_seeded_def world_insert_fails_def world_silent_failure_def world_seed_down_def
  world_create_fails_def world_empty_fact_def world_close_fails_def world_all_silent_def
  world_rollback_fails_def world_insert_rollback_fail_def
  cannot_connect_def insert_refused_def create_denied_def lost_connection_def not_available_def

subsection \<open>The fact reader\<close>

lemma random_fact_try_result:
  assumes "random_fact_try w = (r, l, w')"
  shows "(case r of Inl e \<Rightarrow> None | Inr x \<Rightarrow> x) =
     (if read_fails w then None
      else case table w of None \<Rightarrow> None
           | Some rows \<Rightarrow> if rows = [] then None else Some (rows ! (rand w mod length rows)))"
  using assms
  apply (simp add: random_fact_try_def Let_def split: prod.splits sum.splits)
  apply (auto dest!: get_db_connection_step cursor_step execute_select_step fetchone_step
         simp: read_fails_def numeral_eq_Suc split: list.splits option.splits val.splits sum.splits if_splits)
  done


lemma random_fact_try_closes:
  assumes "random_fact_try w = (r, l, w')" "calls_ok 6 (plan w)"
  shows "calls_ok (length (close_calls l)) (plan w')"
  using assms
  apply (simp add: random_fact_try_def Let_def split: prod.splits sum.splits)
  apply (auto dest!: get_db_connection_step cursor_step execute_select_step fetchone_step
         simp: close_calls_def numeral_eq_Suc split: list.splits option.splits val.splits sum.splits if_splits)
  done

lemma get_random_fact_result:
  "fst (get_random_fact w) =
     (case fst (close_all (read_locals w) (after_read w)) of
        Inl e \<Rightarrow> Inl e
      | Inr _ \<Rightarrow> Inr (if read_fails w then None
                    else case table w of None \<Rightarrow> None
                         | Some rows \<Rightarrow> if rows = [] then None
                                        else Some (rows ! (rand w mod length rows))))"
proof -
  obtain r l w' where t: "random_fact_try w = (r, l, w')"
    by (metis prod_cases3)
  from random_fact_try_result[OF t] t show ?thesis
    by (auto simp: get_random_fact_def finally_close_def read_locals_def after_read_def
        split: sum.splits exn.splits prod.splits)
qed

lemma get_random_fact_closes:
  assumes "calls_ok 6 (plan w)"
  shows "fst (close_all (read_locals w) (after_read w)) = Inr ()"
proof -
  obtain r l w' where t: "random_fact_try w = (r, l, w')"
    by (metis prod_cases3)
  obtain r2 w2 where c: "close_all l w' = (r2, w2)"
    by (metis surj_pair)
  from random_fact_try_closes[OF t assms] close_all_step[OF c] t c show ?thesis
    by (simp add: read_locals_def after_read_def)
qed




subsection \<open>The seeder\<close>

lemma populate_try_gated:
  assumes "table w = Some rows" "rows \<noteq> []" "populate_try w = (r, l, w')"
  shows "table w' = Some rows \<and> inserts w' = inserts w"
  using assms
  apply (simp add: populate_try_def Let_def split: prod.splits sum.splits bool.splits)
  apply (auto dest!: get_db_connection_step cursor_step execute_select_step fetchone_step
         simp: inserts_def is_insert_def subscript0_def gt0_def split: list.splits option.splits sum.splits)
  done


lemma populate_facts_gated:
  assumes "table w = Some rows" "rows \<noteq> []"
  shows "table (snd (populate_facts w)) = Some rows \<and> inserts (snd (populate_facts w)) = inserts w"
proof -
  obtain r l w' where t: "populate_try w = (r, l, w')"
    by (metis prod_cases3)
  obtain r2 w2 where c: "finally_close l (except_rollback l (r, w')) = (r2, w2)"
    by (metis surj_pair)
  from populate_try_gated[OF assms t] cleanup_step[OF c] t c show ?thesis
    by (simp add: populate_facts_def)
qed

text \<open>
  C3. The seeder is gated by the row count. From a state whose table has at least one
  row, a call to \<^verbatim>\<open>populate_facts\<close> leaves the table as it is and makes no insert call,
  whatever else happens during the call; and so does any number \<open>n\<close> of calls in a row.
\<close>

theorem seeder_is_count_gated:
  assumes "table w = Some rows" and "rows \<noteq> []"
  shows "table (snd (populate_facts w)) = Some rows
       \<and> inserts (snd (populate_facts w)) = inserts w
       \<and> table (((\<lambda>v. snd (populate_facts v)) ^^ n) w) = Some rows
       \<and> inserts (((\<lambda>v. snd (populate_facts v)) ^^ n) w) = inserts w"
proof -
  have "table (((\<lambda>v. snd (populate_facts v)) ^^ n) w) = Some rows
       \<and> inserts (((\<lambda>v. snd (populate_facts v)) ^^ n) w) = inserts w"
  proof (induction n)
    case 0
    show ?case using assms by simp
  next
    case (Suc n)
    then show ?case using populate_facts_gated[OF _ assms(2)] by simp
  qed
  with populate_facts_gated[OF assms] show ?thesis by simp
qed

theorem seeder_is_count_gated_witness:
  "table world_two_rows = Some [''first fact'', ''second fact'']
   \<and> [''first fact'', ''second fact''] \<noteq> []
   \<and> table (snd (populate_facts world_two_rows)) = Some [''first fact'', ''second fact'']
   \<and> inserts (snd (populate_facts world_two_rows)) = []
   \<and> table (((\<lambda>v. snd (populate_facts v)) ^^ 3) world_two_rows) = Some [''first fact'', ''second fact'']
   \<and> inserts (((\<lambda>v. snd (populate_facts v)) ^^ 3) world_two_rows) = []"
proof -
  have a: "table world_two_rows = Some [''first fact'', ''second fact'']"
    by (simp add: world_two_rows_def world0_def)
  have b: "[''first fact'', ''second fact''] \<noteq> []"
    by simp
  have c: "inserts world_two_rows = []"
    by (simp add: inserts_def world_two_rows_def world0_def)
  from seeder_is_count_gated[OF a b, of 3] a b c show ?thesis
    by simp
qed




lemma populate_try_seeds:
  assumes "table w = Some []" "port_arg w = Inr p" "calls_ok 6 (plan w)" "populate_try w = (r, l, w')"
  shows "r = Inr () \<and> l = \<lparr>conn_var = Some (next_id w), cursor_var = Some (next_id w)\<rparr>
       \<and> table w' = Some facts \<and> plan w' = drop 6 (plan w)
       \<and> trace w' = trace w @ [Connect (db_params (env w) p), Cursor (next_id w),
            Execute (next_id w) SELECT_COUNT, FetchOne (next_id w),
            ExecuteMany (next_id w) facts, Commit (next_id w)]"
  using assms
  apply (simp add: populate_try_def Let_def split: prod.splits sum.splits bool.splits)
  apply (auto dest!: get_db_connection_step cursor_step execute_select_step fetchone_step
           executemany_step commit_step
         simp: subscript0_def gt0_def numeral_eq_Suc drop_Suc split: list.splits option.splits sum.splits)
  done


lemma facts_distinct: "distinct facts"
  by (simp add: facts_def)

lemma facts_length: "length facts = 15"
  by (simp add: facts_def)

text \<open>
  C4. The seed list has 15 different strings. On an empty table, when the port parses
  and the eight driver calls of the seeder run, \<^verbatim>\<open>populate_facts\<close> returns normally, its
  driver calls are: connect, cursor, the count query, its fetch, one \<^verbatim>\<open>executemany\<close>
  with the whole list, commit, and the two closes; and the table then holds the list in
  order. On a table holding that list, whatever \<^verbatim>\<open>get_random_fact\<close> returns as a fact is
  a member of the list, and it does return one when no step of the read fails and its
  six driver calls run.
\<close>

theorem seeding_inserts_the_fixed_list:
  "length facts = 15 \<and> card (set facts) = 15
   \<and> (table w = Some [] \<and> port_arg w = Inr p \<and> calls_ok 8 (plan w) \<longrightarrow>
        fst (populate_facts w) = Inr ()
        \<and> table (snd (populate_facts w)) = Some facts
        \<and> trace (snd (populate_facts w)) = trace w @
            [Connect (db_params (env w) p), Cursor (next_id w),
             Execute (next_id w) SELECT_COUNT, FetchOne (next_id w),
             ExecuteMany (next_id w) facts, Commit (next_id w),
             CursorClose (next_id w), ConnClose (next_id w)])
   \<and> (table v = Some facts \<longrightarrow>
        (\<forall>f. fst (get_random_fact v) = Inr (Some f) \<longrightarrow> f \<in> set facts)
        \<and> (\<not> read_fails v \<and> calls_ok 6 (plan v)
             \<longrightarrow> (\<exists>f \<in> set facts. fst (get_random_fact v) = Inr (Some f))))"
proof -
  have n: "length facts = 15 \<and> card (set facts) = 15"
    using distinct_card[OF facts_distinct] facts_length by simp
  have seed: "fst (populate_facts w) = Inr ()
        \<and> table (snd (populate_facts w)) = Some facts
        \<and> trace (snd (populate_facts w)) = trace w @
            [Connect (db_params (env w) p), Cursor (next_id w),
             Execute (next_id w) SELECT_COUNT, FetchOne (next_id w),
             ExecuteMany (next_id w) facts, Commit (next_id w),
             CursorClose (next_id w), ConnClose (next_id w)]"
    if h: "table w = Some []" "port_arg w = Inr p" "calls_ok 8 (plan w)"
  proof -
    obtain r l w' where t: "populate_try w = (r, l, w')"
      by (metis prod_cases3)
    obtain r2 w2 where c: "finally_close l (except_rollback l (r, w')) = (r2, w2)"
      by (metis surj_pair)
    from h(3) have six: "calls_ok 6 (plan w)" and two: "calls_ok 2 (drop 6 (plan w))"
      using calls_ok_add[of 6 2 "plan w"] by simp_all
    note T = populate_try_seeds[OF h(1,2) six t]
    from T two have "calls_ok (length ((case r of Inl e \<Rightarrow> rollback_calls e l | Inr _ \<Rightarrow> []) @ close_calls l)) (plan w')"
      by (simp add: close_calls_def numeral_2_eq_2)
    with cleanup_step[OF c] have "r2 = r \<and> table w2 = table w'
        \<and> trace w2 = trace w' @ (case r of Inl e \<Rightarrow> rollback_calls e l | Inr _ \<Rightarrow> []) @ close_calls l"
      by blast
    with T t c show ?thesis
      by (simp add: populate_facts_def close_calls_def)
  qed
  have nonempty: "facts \<noteq> []"
    using facts_length by auto
  have read: "(\<forall>f. fst (get_random_fact v) = Inr (Some f) \<longrightarrow> f \<in> set facts)
        \<and> (\<not> read_fails v \<and> calls_ok 6 (plan v)
             \<longrightarrow> (\<exists>f \<in> set facts. fst (get_random_fact v) = Inr (Some f)))"
    if "table v = Some facts"
    using that nonempty get_random_fact_closes[of v]
    by (auto simp: get_random_fact_result split: sum.splits if_splits)
  from n seed read show ?thesis by blast
qed

theorem seeding_inserts_the_fixed_list_witness:
  "table world_empty_table = Some [] \<and> port_arg world_empty_table = Inr 3306
   \<and> calls_ok 8 (plan world_empty_table)
   \<and> fst (populate_facts world_empty_table) = Inr ()
   \<and> table (snd (populate_facts world_empty_table)) = Some facts
   \<and> table world_seeded = Some facts \<and> \<not> read_fails world_seeded \<and> calls_ok 6 (plan world_seeded)
   \<and> (\<exists>f \<in> set facts. fst (get_random_fact world_seeded) = Inr (Some f))"
proof -
  have a: "table world_empty_table = Some [] \<and> port_arg world_empty_table = Inr 3306
     \<and> calls_ok 8 (plan world_empty_table)"
    by (simp add: world_empty_table_def world0_def run_defs numeral_eq_Suc)
  have b: "table world_seeded = Some facts"
    by (simp add: world_seeded_def world0_def)
  have c: "\<not> read_fails world_seeded \<and> calls_ok 6 (plan world_seeded)"
    by (simp add: read_fails_def world_seeded_def world0_def run_defs numeral_eq_Suc)
  from seeding_inserts_the_fixed_list[of world_empty_table 3306 world_seeded] a b c
  show ?thesis by simp
qed




subsection \<open>The response of the request handler\<close>

lemma dict_get_dict_set:
  "dict_get (dict_set d k v) k' = (if k' = k then Some v else dict_get d k')"
  by (induction d k v rule: dict_set.induct) (auto simp: dict_get_def)

lemma build_response_fields:
  "dict_get (build_response h n ver err f) ''message'' = Some (JStr ''Hello, World!'')"
  "dict_get (build_response h n ver err f) ''database'' = Some (JObj [(''host'', JStr h), (''name'', JStr n)])"
  "dict_get (build_response h n ver err f) ''status'' =
     Some (JStr (if truthy err then ''degraded'' else ''healthy''))"
  "dict_get (build_response h n ver err f) ''error'' =
     (if truthy err then Some (JStr (''Database initialization failed: '' @ str_of err)) else None)"
  "dict_get (build_response h n ver err f) ''random_fact'' =
     (if truthy f then Some (JStr (str_of f))
      else if truthy err then None else Some (JStr placeholder))"
  by (simp_all add: build_response_def Let_def dict_get_dict_set) (simp_all add: dict_get_def)

lemma hello_world_eq:
  "hello_world w =
     ((build_response (getenv (env w) ''DB_HOST'' ''localhost'') (getenv (env w) ''DB_NAME'' ''hello_world'')
         (read_version (snd (get_random_fact (snd (init_database w))))) (init_error w) (fact_var w), 200),
      snd (get_random_fact (snd (init_database w))))"
  by (simp add: hello_world_def hello_world_try_def init_outcome_def fact_outcome_def init_error_def
      fact_var_def Let_def split: prod.splits)

lemma response_of_eq:
  "response_of w =
     build_response (getenv (env w) ''DB_HOST'' ''localhost'') (getenv (env w) ''DB_NAME'' ''hello_world'')
         (read_version (snd (get_random_fact (snd (init_database w))))) (init_error w) (fact_var w)"
  by (simp add: response_of_def hello_world_eq)

lemma http_status_200: "http_status w = 200"
  by (simp add: http_status_def hello_world_eq)


text \<open>
  What every response has: the greeting, the database host and name, a status that is
  \<^verbatim>\<open>degraded\<close> exactly when the recorded error text is a non-empty string, and an
  \<^verbatim>\<open>error\<close> field exactly when the status is \<^verbatim>\<open>degraded\<close>.
\<close>

lemma response_shape:
  "dict_get (response_of w) ''message'' = Some (JStr ''Hello, World!'')
   \<and> dict_get (response_of w) ''database'' =
       Some (JObj [(''host'', JStr (getenv (env w) ''DB_HOST'' ''localhost'')),
                   (''name'', JStr (getenv (env w) ''DB_NAME'' ''hello_world''))])
   \<and> dict_get (response_of w) ''status'' =
       Some (JStr (if truthy (init_error w) then ''degraded'' else ''healthy''))
   \<and> (dict_get (response_of w) ''error'' \<noteq> None
        \<longleftrightarrow> dict_get (response_of w) ''status'' = Some (JStr ''degraded''))"
  by (simp add: response_of_eq build_response_fields)



text \<open>
  C1, at an input where the code departs from it. Both connection attempts of the
  request raise an exception whose text is empty: schema initialisation fails and the
  fact reader returns \<^verbatim>\<open>None\<close>. The answer is 200, but the test \<^verbatim>\<open>if db_init_error:\<close>
  takes the empty text for \<^verbatim>\<open>None\<close>, so the body says \<^verbatim>\<open>healthy\<close> and has no
  \<^verbatim>\<open>error\<close> field. (For every world the answer is 200, and the body is \<^verbatim>\<open>degraded\<close>
  with the error text whenever that text is not empty: lemmas \<open>http_status_200\<close> and
  \<open>degraded_when_text\<close>.)
\<close>

theorem all_operations_fail_yet_healthy:
  "init_outcome world_all_silent = Inl (Exception [])
   \<and> fact_outcome world_all_silent = Inr None
   \<and> http_status world_all_silent = 200
   \<and> dict_get (response_of world_all_silent) ''status'' = Some (JStr ''healthy'')
   \<and> dict_get (response_of world_all_silent) ''error'' = None"
proof -
  have a: "init_outcome world_all_silent = Inl (Exception [])"
    by (simp add: init_outcome_def world_defs run_defs)
  have b: "fact_outcome world_all_silent = Inr None"
    by (simp add: fact_outcome_def world_defs run_defs)
  from a b show ?thesis
    by (simp add: http_status_200 response_of_eq build_response_fields init_error_def truthy_def str_exn_def)
qed

text \<open>
  C5, at an input where the code departs from it. The first driver call raises an
  exception whose text is empty (not a database error). \<^verbatim>\<open>init_database\<close> re-raises
  it, the handler stores its text, the empty string, in \<^verbatim>\<open>db_init_error\<close>, and the
  test \<^verbatim>\<open>if db_init_error:\<close> takes the empty string for \<^verbatim>\<open>None\<close>: the response says
  \<^verbatim>\<open>healthy\<close> and has no \<^verbatim>\<open>error\<close> field although schema initialisation failed.
\<close>

theorem empty_error_text_is_reported_healthy:
  "init_outcome world_silent_failure = Inl (Exception [])
   \<and> http_status world_silent_failure = 200
   \<and> dict_get (response_of world_silent_failure) ''status'' = Some (JStr ''healthy'')
   \<and> dict_get (response_of world_silent_failure) ''error'' = None"
proof -
  have a: "init_outcome world_silent_failure = Inl (Exception [])"
    by (simp add: init_outcome_def world_defs run_defs)
  then show ?thesis
    by (simp add: http_status_200 response_of_eq build_response_fields init_error_def truthy_def str_exn_def)
qed


subsection \<open>Schema initialisation\<close>









subsection \<open>The connection provider\<close>

text \<open>
  C8. The connect call gets host, database, user and password from \<^verbatim>\<open>DB_HOST\<close>,
  \<^verbatim>\<open>DB_NAME\<close>, \<^verbatim>\<open>DB_USER\<close>, \<^verbatim>\<open>DB_PASSWORD\<close>, with the defaults \<^verbatim>\<open>localhost\<close>,
  \<^verbatim>\<open>hello_world\<close>, \<^verbatim>\<open>root\<close>, \<^verbatim>\<open>root\<close>; the port is \<^verbatim>\<open>int\<close> of \<^verbatim>\<open>DB_PORT\<close>, by
  default of \<^verbatim>\<open>3306\<close>, which is 3306; the connect timeout is always 10. When the port
  parses, exactly one connect call is made with these parameters, and if the driver
  raises \<open>e\<close> then \<^verbatim>\<open>get_db_connection\<close> raises \<open>e\<close> itself to its caller; when the
  port does not parse, the error of \<^verbatim>\<open>int\<close> is raised and the world is untouched.
\<close>

theorem connection_provider_configuration:
  "db_params (env w) p =
     \<lparr>host = (case env w ''DB_HOST'' of None \<Rightarrow> ''localhost'' | Some v \<Rightarrow> v),
      port = p,
      database = (case env w ''DB_NAME'' of None \<Rightarrow> ''hello_world'' | Some v \<Rightarrow> v),
      user = (case env w ''DB_USER'' of None \<Rightarrow> ''root'' | Some v \<Rightarrow> v),
      password = (case env w ''DB_PASSWORD'' of None \<Rightarrow> ''root'' | Some v \<Rightarrow> v),
      connection_timeout = 10, autocommit = False, raise_on_warnings = False\<rparr>
   \<and> port_arg w = py_int (case env w ''DB_PORT'' of None \<Rightarrow> ''3306'' | Some v \<Rightarrow> v)
   \<and> py_int ''3306'' = Inr 3306
   \<and> (port_arg w = Inr p \<longrightarrow>
        trace (snd (get_db_connection w)) = trace w @ [Connect (db_params (env w) p)]
        \<and> fst (get_db_connection w) =
            (case next_fault (plan w) of Some e \<Rightarrow> Inl e | None \<Rightarrow> Inr (next_id w)))
   \<and> (\<forall>e. port_arg w = Inl e \<longrightarrow> get_db_connection w = (Inl e, w))"
proof -
  obtain r w' where g: "get_db_connection w = (r, w')"
    by (metis surj_pair)
  have bad: "get_db_connection w = (Inl e, w)" if "port_arg w = Inl e" for e
    using that by (simp add: get_db_connection_def port_arg_def Let_def split: exn.splits)
  from get_db_connection_step[OF g] g bad show ?thesis
    by (auto simp: db_params_def getenv_def port_arg_def py_int_3306 split: option.splits sum.splits)
qed

theorem connection_provider_configuration_witness:
  "port_arg world_down = Inr 3306
   \<and> host (db_params (env world_down) 3306) = ''localhost''
   \<and> connection_timeout (db_params (env world_down) 3306) = 10
   \<and> trace (snd (get_db_connection world_down)) = [Connect (db_params (env world_down) 3306)]
   \<and> fst (get_db_connection world_down) = Inl cannot_connect"
proof -
  have a: "port_arg world_down = Inr 3306"
    by (simp add: world_defs run_defs)
  have b: "next_fault (plan world_down) = Some cannot_connect" "trace world_down = []"
    "env world_down ''DB_HOST'' = None"
    by (simp_all add: world_defs next_fault_def)
  note t = connection_provider_configuration[of world_down 3306]
  from t a have c: "trace (snd (get_db_connection world_down)) =
        trace world_down @ [Connect (db_params (env world_down) 3306)]
      \<and> fst (get_db_connection world_down) =
        (case next_fault (plan world_down) of Some e \<Rightarrow> Inl e | None \<Rightarrow> Inr (next_id world_down))"
    by blast
  from t have d: "host (db_params (env world_down) 3306) =
      (case env world_down ''DB_HOST'' of None \<Rightarrow> ''localhost'' | Some v \<Rightarrow> v)
      \<and> connection_timeout (db_params (env world_down) 3306) = 10"
    by (simp add: db_params_def getenv_def)
  from a c d show ?thesis
    by (simp add: b)
qed

subsection \<open>The \<^verbatim>\<open>random_fact\<close> field\<close>

text \<open>
  C9 as stated fails: with a row whose text is the empty string, the fact reader
  retrieves that text, and when initialisation has failed the response is
  \<^verbatim>\<open>degraded\<close> and has no \<^verbatim>\<open>random_fact\<close> field, although a fact was retrieved.
\<close>

theorem empty_fact_is_dropped:
  "fact_outcome world_empty_fact = Inr (Some [])
   \<and> dict_get (response_of world_empty_fact) ''status'' = Some (JStr ''degraded'')
   \<and> dict_get (response_of world_empty_fact) ''random_fact'' = None"
proof -
  have a: "init_outcome world_empty_fact = Inl cannot_connect"
    by (simp add: init_outcome_def world_defs run_defs)
  have b: "fact_outcome world_empty_fact = Inr (Some [])"
    by (simp add: fact_outcome_def world_defs run_defs)
  from a b show ?thesis
    by (simp add: response_of_eq build_response_fields init_error_def fact_var_def truthy_def
        str_exn_def cannot_connect_def)
qed


text \<open>
  C9, amended. When the status is \<^verbatim>\<open>healthy\<close> the \<^verbatim>\<open>random_fact\<close> field is present
  and holds either the placeholder or a non-empty text that \<^verbatim>\<open>get_random_fact\<close>
  returned. The field is absent exactly when the status is \<^verbatim>\<open>degraded\<close> and
  \<^verbatim>\<open>get_random_fact\<close> raised, returned \<^verbatim>\<open>None\<close> or returned the empty string.
\<close>

theorem random_fact_field:
  "(dict_get (response_of w) ''status'' = Some (JStr ''healthy'') \<longrightarrow>
      dict_get (response_of w) ''random_fact'' = Some (JStr placeholder)
      \<or> (\<exists>f. f \<noteq> [] \<and> fact_outcome w = Inr (Some f)
              \<and> dict_get (response_of w) ''random_fact'' = Some (JStr f)))
   \<and> (dict_get (response_of w) ''random_fact'' = None \<longleftrightarrow>
        dict_get (response_of w) ''status'' = Some (JStr ''degraded'')
        \<and> (fact_outcome w = Inr None \<or> fact_outcome w = Inr (Some [])
            \<or> (\<exists>e. fact_outcome w = Inl e)))"
  by (cases "fact_outcome w")
     (auto simp: response_of_eq build_response_fields fact_var_def truthy_def str_of_def
      split: option.splits)

theorem random_fact_field_witness:
  "dict_get (response_of world_seed_down) ''status'' = Some (JStr ''healthy'')
   \<and> dict_get (response_of world_seed_down) ''random_fact'' = Some (JStr placeholder)
   \<and> dict_get (response_of world_down) ''status'' = Some (JStr ''degraded'')
   \<and> fact_outcome world_down = Inr None
   \<and> dict_get (response_of world_down) ''random_fact'' = None"
proof -
  have a: "init_outcome world_seed_down = Inr ()"
    by (simp add: init_outcome_def world_defs run_defs)
  have b: "fact_outcome world_seed_down = Inr None"
    by (simp add: fact_outcome_def world_defs run_defs)
  have c: "init_outcome world_down = Inl cannot_connect"
    by (simp add: init_outcome_def world_defs run_defs)
  have d: "fact_outcome world_down = Inr None"
    by (simp add: fact_outcome_def world_defs run_defs)
  have e: "dict_get (response_of world_seed_down) ''status'' = Some (JStr ''healthy'')"
    using a by (simp add: response_of_eq build_response_fields init_error_def truthy_def)
  have f: "dict_get (response_of world_down) ''status'' = Some (JStr ''degraded'')"
    using c by (simp add: response_of_eq build_response_fields init_error_def truthy_def
        str_exn_def cannot_connect_def)
  from random_fact_field[of world_seed_down] random_fact_field[of world_down] b d e f
  show ?thesis by auto
qed

end
